theory Spec2Isabelle
  imports Complex_Main "HOL-Library.AList"
begin

section \<open>Python values and the object store\<close>

text \<open>
  The executor of \<^verbatim>\<open>src/backend/src/common/workflow_executor.py\<close> threads a mutable
  entity dictionary through its step handlers, and two handlers write into the
  dictionary stored under the entity's \<^verbatim>\<open>'tags'\<close> key.  Dictionaries are therefore
  objects of a store, named by address, and a value that is a dictionary is a reference.
  The values of \<^verbatim>\<open>Dict[str, Any]\<close> considered here are \<^verbatim>\<open>None\<close>, booleans, strings
  and dictionaries; numbers and lists are left out.  A dictionary object is an
  association list in insertion order, read with \<^const>\<open>map_of\<close>, written with
  \<^const>\<open>AList.update\<close> and \<^const>\<open>AList.delete\<close>.
\<close>

type_synonym addr = nat

datatype pyval = PNone | PBool bool | PStr string | PDict addr

type_synonym pydict = "(pyval \<times> pyval) list"

text \<open>
  The store, the allocation pointer (every address from \<open>next_addr\<close> on is free) and
  the number of clock readings taken so far (\<^verbatim>\<open>time.time()\<close> and
  \<^verbatim>\<open>datetime.utcnow()\<close> answer differently each time they are asked).
\<close>

record mem =
  heap :: "addr \<Rightarrow> pydict"
  next_addr :: addr
  ticks :: nat

text \<open>Exceptions that the modelled code can raise; \<open>Fault s\<close> is an exception of a
  collaborator whose text is \<open>s\<close>.\<close>

datatype pyexn = TypeError | KeyError | ValueError | AttributeError | Fault string

text \<open>Truth value testing: \<^verbatim>\<open>if v\<close>, \<^verbatim>\<open>not v\<close>, \<^verbatim>\<open>a or b\<close>.\<close>

fun truthy :: "mem \<Rightarrow> pyval \<Rightarrow> bool" where
  "truthy m PNone = False"
| "truthy m (PBool b) = b"
| "truthy m (PStr s) = (s \<noteq> [])"
| "truthy m (PDict a) = (heap m a \<noteq> [])"

definition py_or :: "mem \<Rightarrow> pyval \<Rightarrow> pyval \<Rightarrow> pyval" where
  "py_or m a b = (if truthy m a then a else b)"

text \<open>An \<^verbatim>\<open>Optional[str]\<close> as a value, and its truth value.\<close>

fun opt_str :: "string option \<Rightarrow> pyval" where
  "opt_str None = PNone"
| "opt_str (Some s) = PStr s"

fun truthy_opt :: "string option \<Rightarrow> bool" where
  "truthy_opt None = False"
| "truthy_opt (Some s) = (s \<noteq> [])"

text \<open>Only dictionaries are unhashable among these values.\<close>

fun hashable :: "pyval \<Rightarrow> bool" where
  "hashable (PDict a) = False"
| "hashable v = True"

fun starts_with :: "string \<Rightarrow> string \<Rightarrow> bool" where
  "starts_with [] s = True"
| "starts_with (c # cs) [] = False"
| "starts_with (c # cs) (d # ds) = (c = d \<and> starts_with cs ds)"

fun substring :: "string \<Rightarrow> string \<Rightarrow> bool" where
  "substring t [] = (t = [])"
| "substring t (c # cs) = (starts_with t (c # cs) \<or> substring t cs)"

text \<open>\<^verbatim>\<open>d.get(k)\<close> and \<^verbatim>\<open>d.get(k, default)\<close> on a dictionary.\<close>

definition dict_get :: "pydict \<Rightarrow> pyval \<Rightarrow> pyval \<Rightarrow> pyval" where
  "dict_get d k dflt = (case map_of d k of None \<Rightarrow> dflt | Some v \<Rightarrow> v)"

text \<open>\<^verbatim>\<open>k in c\<close>: a key test on a dictionary, a substring test on a string, a
  \<^verbatim>\<open>TypeError\<close> otherwise.\<close>

fun py_contains :: "mem \<Rightarrow> pyval \<Rightarrow> pyval \<Rightarrow> pyexn + bool" where
  "py_contains m k (PDict a) =
     (if hashable k then Inr (map_of (heap m a) k \<noteq> None) else Inl TypeError)"
| "py_contains m (PStr t) (PStr s) = Inr (substring t s)"
| "py_contains m k c = Inl TypeError"

text \<open>\<^verbatim>\<open>c[k] = v\<close> and \<^verbatim>\<open>del c[k]\<close>: only a dictionary supports them.\<close>

fun py_setitem :: "mem \<Rightarrow> pyval \<Rightarrow> pyval \<Rightarrow> pyval \<Rightarrow> pyexn + mem" where
  "py_setitem m (PDict a) k v =
     (if hashable k then Inr (m\<lparr>heap := (heap m)(a := AList.update k v (heap m a))\<rparr>)
      else Inl TypeError)"
| "py_setitem m c k v = Inl TypeError"

fun py_delitem :: "mem \<Rightarrow> pyval \<Rightarrow> pyval \<Rightarrow> pyexn + mem" where
  "py_delitem m (PDict a) k =
     (if \<not> hashable k then Inl TypeError
      else if map_of (heap m a) k = None then Inl KeyError
      else Inr (m\<lparr>heap := (heap m)(a := AList.delete k (heap m a))\<rparr>))"
| "py_delitem m c k = Inl TypeError"

text \<open>\<^verbatim>\<open>d.copy()\<close>: a new dictionary object with the same items.  The copy is shallow:
  an item that is a reference is copied as a reference.\<close>

definition dict_copy :: "mem \<Rightarrow> addr \<Rightarrow> mem \<times> addr" where
  "dict_copy m a =
     (let b = next_addr m
      in (m\<lparr>heap := (heap m)(b := heap m a), next_addr := Suc b\<rparr>, b))"

text \<open>\<^verbatim>\<open>{}\<close>: a new empty dictionary object.\<close>

definition dict_new :: "mem \<Rightarrow> mem \<times> addr" where
  "dict_new m =
     (let b = next_addr m
      in (m\<lparr>heap := (heap m)(b := []), next_addr := Suc b\<rparr>, b))"

section \<open>Steps, contexts and outcomes\<close>

type_synonym pyconfig = "(string \<times> pyval) list"

definition config_get :: "pyconfig \<Rightarrow> string \<Rightarrow> pyval \<Rightarrow> pyval" where
  "config_get c k dflt = (case map_of c k of None \<Rightarrow> dflt | Some v \<Rightarrow> v)"

text \<open>\<^verbatim>\<open>StepResult\<close>.  The message is a value, not a string, because the fail handler
  passes on whatever the configuration holds under \<^verbatim>\<open>'message'\<close>.  A result's data
  dictionary is fresh and is only handed on, so it is kept as its items.\<close>

record StepResult =
  passed :: bool
  message :: pyval
  data :: "pydict option"
  error :: "string option"
  blocking :: bool

text \<open>\<^verbatim>\<open>StepContext\<close>; \<open>entity\<close> is the reference to the entity dictionary.  The
  trigger context is carried along unread by everything modelled here and is left out.\<close>

record StepContext =
  entity :: addr
  entity_type :: string
  entity_id :: string
  entity_name :: "string option"
  user_email :: "string option"
  execution_id :: nat
  workflow_id :: string
  workflow_name :: string
  step_results :: "(string \<times> bool \<times> pyval \<times> pydict option) list"

text \<open>\<^verbatim>\<open>WorkflowStep\<close>: \<open>step_db_id\<close> is the source's \<^verbatim>\<open>id\<close> (the row's key),
  \<open>step_id\<close> the workflow-local identifier that branches refer to, \<open>step_type\<close> the
  string the registry is asked for.\<close>

record WorkflowStep =
  step_db_id :: string
  step_id :: string
  step_type :: string
  config :: "pyconfig option"
  on_pass :: "string option"
  on_fail :: "string option"

text \<open>\<^verbatim>\<open>ProcessWorkflow\<close>: \<open>wf_id\<close> and \<open>wf_name\<close> are the source's \<^verbatim>\<open>id\<close> and
  \<^verbatim>\<open>name\<close>.\<close>

record ProcessWorkflow =
  wf_id :: string
  wf_name :: string
  steps :: "WorkflowStep list"

type_synonym handler = "pyconfig \<Rightarrow> StepContext \<Rightarrow> mem \<Rightarrow> (pyexn + StepResult) \<times> mem"

text \<open>
  What the executor uses and the sources do not define is a parameter:
  \<^item> \<open>time_time n\<close> and \<open>utcnow_isoformat n\<close>: the answer of the clock at its \<open>n\<close>-th
    reading;
  \<^item> \<open>exn_str\<close>: \<^verbatim>\<open>str(e)\<close> of an exception;
  \<^item> \<open>format_value\<close>: the text an f-string puts for a dictionary;
  \<^item> \<open>collaborator kind\<close>: the \<^verbatim>\<open>execute\<close> method of the handler registered for
    \<open>kind\<close>, for the handlers whose work is done by the rule evaluator, the delivery
    service, the policy table, the script interpreter or string formatting.  Such a
    handler may return an outcome or raise, and may change the store; it has no access
    to the execution repository.
\<close>

record env =
  time_time :: "nat \<Rightarrow> real"
  utcnow_isoformat :: "nat \<Rightarrow> string"
  exn_str :: "pyexn \<Rightarrow> string"
  format_value :: "mem \<Rightarrow> addr \<Rightarrow> string"
  collaborator :: "string \<Rightarrow> handler"

text \<open>The text of a value inside an f-string.\<close>

fun py_str :: "env \<Rightarrow> mem \<Rightarrow> pyval \<Rightarrow> string" where
  "py_str E m PNone = ''None''"
| "py_str E m (PBool b) = (if b then ''True'' else ''False'')"
| "py_str E m (PStr s) = s"
| "py_str E m (PDict a) = format_value E m a"

section \<open>The step handlers\<close>

definition StepResult_failed :: "string \<Rightarrow> StepResult" where
  "StepResult_failed e =
     \<lparr>passed = False, message = PNone, data = None, error = Some e, blocking = False\<rparr>"

text \<open>\<^verbatim>\<open>PassStepHandler.execute\<close> and \<^verbatim>\<open>FailStepHandler.execute\<close>.\<close>

definition PassStepHandler_execute :: "pyconfig \<Rightarrow> StepContext \<Rightarrow> StepResult" where
  "PassStepHandler_execute cfg ctx =
     \<lparr>passed = True, message = PStr ''Workflow completed successfully'', data = None,
      error = None, blocking = False\<rparr>"

definition FailStepHandler_execute :: "pyconfig \<Rightarrow> StepContext \<Rightarrow> StepResult" where
  "FailStepHandler_execute cfg ctx =
     \<lparr>passed = False, message = config_get cfg ''message'' (PStr ''Workflow failed''),
      data = None, error = None, blocking = False\<rparr>"

text \<open>\<^verbatim>\<open>AssignTagStepHandler._resolve_value_source\<close>.\<close>

definition resolve_value_source :: "env \<Rightarrow> pyval \<Rightarrow> StepContext \<Rightarrow> mem \<Rightarrow> pyval \<times> mem" where
  "resolve_value_source E source ctx m =
     (if source = PStr ''current_user'' then (opt_str (user_email ctx), m)
      else if source = PStr ''project_name'' then
        (py_or m (dict_get (heap m (entity ctx)) (PStr ''project_name'') PNone)
                 (dict_get (heap m (entity ctx)) (PStr ''project_id'') PNone), m)
      else if source = PStr ''entity_name'' then (opt_str (entity_name ctx), m)
      else if source = PStr ''timestamp'' then
        (PStr (utcnow_isoformat E (ticks m)), m\<lparr>ticks := Suc (ticks m)\<rparr>)
      else (PNone, m))"

text \<open>The body of the \<^verbatim>\<open>try\<close> block of \<^verbatim>\<open>AssignTagStepHandler.execute\<close>: an exception
  leaves the store as it was when it was raised.\<close>

definition assign_tag_try :: "env \<Rightarrow> pyval \<Rightarrow> pyval \<Rightarrow> pyval \<Rightarrow> StepContext \<Rightarrow> mem
    \<Rightarrow> (pyexn + StepResult) \<times> mem" where
  "assign_tag_try E key val value_source ctx m =
     (let (resolved_value, m1) =
            (if truthy m value_source then resolve_value_source E value_source ctx m
             else (val, m))
      in if \<not> truthy m1 resolved_value
         then (Inr (StepResult_failed ''Could not resolve tag value''), m1)
         else
           let m2 = (if map_of (heap m1 (entity ctx)) (PStr ''tags'') = None
                     then (let (n, b) = dict_new m1
                           in n\<lparr>heap := (heap n)(entity ctx :=
                                  AList.update (PStr ''tags'') (PDict b) (heap n (entity ctx)))\<rparr>)
                     else m1)
           in (case map_of (heap m2 (entity ctx)) (PStr ''tags'') of
                 None \<Rightarrow> (Inl KeyError, m2)
               | Some tags \<Rightarrow>
                   (case py_setitem m2 tags key resolved_value of
                      Inl e \<Rightarrow> (Inl e, m2)
                    | Inr m3 \<Rightarrow>
                        (Inr \<lparr>passed = True,
                              message = PStr (''Assigned tag '' @ py_str E m3 key @ ''=''
                                              @ py_str E m3 resolved_value),
                              data = Some [(PStr ''key'', key), (PStr ''value'', resolved_value)],
                              error = None, blocking = False\<rparr>, m3))))"

text \<open>\<^verbatim>\<open>AssignTagStepHandler.execute\<close>.\<close>

definition AssignTagStepHandler_execute :: "env \<Rightarrow> pyconfig \<Rightarrow> StepContext \<Rightarrow> mem
    \<Rightarrow> StepResult \<times> mem" where
  "AssignTagStepHandler_execute E cfg ctx m =
     (let key = config_get cfg ''key'' (PStr []);
          val = config_get cfg ''value'' PNone;
          value_source = config_get cfg ''value_source'' PNone
      in if \<not> truthy m key then (StepResult_failed ''No tag key configured'', m)
         else (case assign_tag_try E key val value_source ctx m of
                 (Inr r, m') \<Rightarrow> (r, m')
               | (Inl e, m') \<Rightarrow> (StepResult_failed (exn_str E e), m')))"

text \<open>The body of the \<^verbatim>\<open>try\<close> block of \<^verbatim>\<open>RemoveTagStepHandler.execute\<close>.\<close>

definition remove_tag_try :: "env \<Rightarrow> pyval \<Rightarrow> StepContext \<Rightarrow> mem \<Rightarrow> (pyexn + StepResult) \<times> mem" where
  "remove_tag_try E key ctx m =
     (let done = (\<lambda>n. (Inr \<lparr>passed = True, message = PStr (''Removed tag '' @ py_str E n key),
                             data = Some [(PStr ''key'', key)], error = None,
                             blocking = False\<rparr>, n))
      in case map_of (heap m (entity ctx)) (PStr ''tags'') of
           None \<Rightarrow> done m
         | Some tags \<Rightarrow>
             (case py_contains m key tags of
                Inl e \<Rightarrow> (Inl e, m)
              | Inr False \<Rightarrow> done m
              | Inr True \<Rightarrow>
                  (case py_delitem m tags key of
                     Inl e \<Rightarrow> (Inl e, m)
                   | Inr m' \<Rightarrow> done m')))"

text \<open>\<^verbatim>\<open>RemoveTagStepHandler.execute\<close>.\<close>

definition RemoveTagStepHandler_execute :: "env \<Rightarrow> pyconfig \<Rightarrow> StepContext \<Rightarrow> mem
    \<Rightarrow> StepResult \<times> mem" where
  "RemoveTagStepHandler_execute E cfg ctx m =
     (let key = config_get cfg ''key'' (PStr [])
      in if \<not> truthy m key then (StepResult_failed ''No tag key configured'', m)
         else (case remove_tag_try E key ctx m of
                 (Inr r, m') \<Rightarrow> (r, m')
               | (Inl e, m') \<Rightarrow> (StepResult_failed (exn_str E e), m')))"

section \<open>Dispatch\<close>

text \<open>
  \<^verbatim>\<open>WorkflowExecutor.HANDLERS\<close>: the registry, from the kind's string to the handler's
  \<^verbatim>\<open>execute\<close>.  The four handlers above are the source's; the other seven kinds are
  registered with their collaborator-backed handlers.
\<close>

definition HANDLERS :: "env \<Rightarrow> string \<Rightarrow> handler option" where
  "HANDLERS E kind =
     (if kind = ''validation'' then Some (collaborator E ''validation'')
      else if kind = ''approval'' then Some (collaborator E ''approval'')
      else if kind = ''notification'' then Some (collaborator E ''notification'')
      else if kind = ''assign_tag'' then
        Some (\<lambda>cfg ctx m. case AssignTagStepHandler_execute E cfg ctx m of (r, m') \<Rightarrow> (Inr r, m'))
      else if kind = ''remove_tag'' then
        Some (\<lambda>cfg ctx m. case RemoveTagStepHandler_execute E cfg ctx m of (r, m') \<Rightarrow> (Inr r, m'))
      else if kind = ''conditional'' then Some (collaborator E ''conditional'')
      else if kind = ''script'' then Some (collaborator E ''script'')
      else if kind = ''pass'' then Some (\<lambda>cfg ctx m. (Inr (PassStepHandler_execute cfg ctx), m))
      else if kind = ''fail'' then Some (\<lambda>cfg ctx m. (Inr (FailStepHandler_execute cfg ctx), m))
      else if kind = ''policy_check'' then Some (collaborator E ''policy_check'')
      else if kind = ''delivery'' then Some (collaborator E ''delivery'')
      else None)"

text \<open>\<^verbatim>\<open>step.config or {}\<close>.\<close>

fun config_or_empty :: "pyconfig option \<Rightarrow> pyconfig" where
  "config_or_empty None = []"
| "config_or_empty (Some c) = c"

text \<open>\<^verbatim>\<open>WorkflowExecutor._execute_step\<close>: the registry lookup, the unknown-kind result,
  and the \<^verbatim>\<open>try\<close>/\<^verbatim>\<open>except Exception\<close> around the handler.\<close>

definition execute_step :: "env \<Rightarrow> WorkflowStep \<Rightarrow> StepContext \<Rightarrow> mem \<Rightarrow> StepResult \<times> mem" where
  "execute_step E step ctx m =
     (case HANDLERS E (step_type step) of
        None \<Rightarrow> (StepResult_failed (''Unknown step type: '' @ step_type step), m)
      | Some h \<Rightarrow>
          (case h (config_or_empty (config step)) ctx m of
             (Inr r, m') \<Rightarrow> (r, m')
           | (Inl e, m') \<Rightarrow> (StepResult_failed (exn_str E e), m')))"

section \<open>The execution repository\<close>

text \<open>
  \<^verbatim>\<open>ExecutionStatus\<close> and \<^verbatim>\<open>StepExecutionStatus\<close> are declared outside the sources.
  Modelled from the spec: the states are \<open>RUNNING\<close>, \<open>SUCCEEDED\<close>, \<open>FAILED\<close> and
  \<open>PAUSED\<close>, a step's are \<open>SUCCEEDED\<close> and \<open>FAILED\<close>; the stored \<^verbatim>\<open>.value\<close> of a
  state is its name in lower case, which is what \<^verbatim>\<open>resume_workflow\<close> compares with
  (\<^verbatim>\<open>'paused'\<close>).
\<close>

datatype ExecutionStatus = RUNNING | SUCCEEDED | FAILED | PAUSED

datatype StepExecutionStatus = STEP_SUCCEEDED | STEP_FAILED

fun ExecutionStatus_value :: "ExecutionStatus \<Rightarrow> string" where
  "ExecutionStatus_value RUNNING = ''running''"
| "ExecutionStatus_value SUCCEEDED = ''succeeded''"
| "ExecutionStatus_value FAILED = ''failed''"
| "ExecutionStatus_value PAUSED = ''paused''"

fun StepExecutionStatus_value :: "StepExecutionStatus \<Rightarrow> string" where
  "StepExecutionStatus_value STEP_SUCCEEDED = ''succeeded''"
| "StepExecutionStatus_value STEP_FAILED = ''failed''"

text \<open>\<^verbatim>\<open>ExecutionStatus(s)\<close> and \<^verbatim>\<open>StepExecutionStatus(s)\<close>: the member with that value;
  \<open>None\<close> is the \<^verbatim>\<open>ValueError\<close> of the enumeration.\<close>

definition ExecutionStatus_of :: "string \<Rightarrow> ExecutionStatus option" where
  "ExecutionStatus_of s =
     (if s = ''running'' then Some RUNNING
      else if s = ''succeeded'' then Some SUCCEEDED
      else if s = ''failed'' then Some FAILED
      else if s = ''paused'' then Some PAUSED
      else None)"

definition StepExecutionStatus_of :: "string \<Rightarrow> StepExecutionStatus option" where
  "StepExecutionStatus_of s =
     (if s = ''succeeded'' then Some STEP_SUCCEEDED
      else if s = ''failed'' then Some STEP_FAILED
      else None)"

text \<open>The rows of \<^verbatim>\<open>WorkflowStepExecutionDb\<close> and \<^verbatim>\<open>WorkflowExecutionDb\<close>, with the
  columns the executor writes and reads.\<close>

record WorkflowStepExecutionDb =
  se_step_id :: string
  se_status :: string
  se_passed :: bool
  se_result_data :: "pydict option"
  se_error_message :: "string option"
  se_duration_ms :: real

record WorkflowExecutionDb =
  db_id :: nat
  db_workflow_id :: string
  db_status :: string
  db_current_step_id :: "string option"
  db_success_count :: int
  db_failure_count :: int
  db_error_message :: pyval
  db_finished_at :: "string option"
  db_triggered_by :: "string option"
  db_step_executions :: "WorkflowStepExecutionDb list"

text \<open>The database session: the execution table, the next key it hands out, and the
  workflow table.\<close>

record session =
  executions :: "nat \<Rightarrow> WorkflowExecutionDb option"
  next_execution_id :: nat
  workflows :: "string \<Rightarrow> ProcessWorkflow option"

text \<open>
  Modelled from the spec: \<^verbatim>\<open>workflow_execution_repo\<close> is imported from
  \<^verbatim>\<open>src.repositories.process_workflows_repository\<close>, which is not among the sources.
  Its contract in the spec: \<open>create\<close> makes a new durable row (status implicitly
  running); \<open>add_step_execution\<close> appends one step record to the row's history;
  \<open>update_status\<close> sets the status and the tallies, and the current step, the error
  message and the finish time when they are given; \<open>get\<close> reads a row back, if there
  is one.
\<close>

definition repo_create :: "session \<Rightarrow> string \<Rightarrow> string option \<Rightarrow> session \<times> WorkflowExecutionDb" where
  "repo_create db wid triggered_by =
     (let i = next_execution_id db;
          row = \<lparr>db_id = i, db_workflow_id = wid, db_status = ExecutionStatus_value RUNNING,
                 db_current_step_id = None, db_success_count = 0, db_failure_count = 0,
                 db_error_message = PNone, db_finished_at = None,
                 db_triggered_by = triggered_by, db_step_executions = []\<rparr>
      in (db\<lparr>executions := (executions db)(i \<mapsto> row), next_execution_id := Suc i\<rparr>, row))"

definition repo_get :: "session \<Rightarrow> nat \<Rightarrow> WorkflowExecutionDb option" where
  "repo_get db i = executions db i"

definition repo_add_step_execution :: "session \<Rightarrow> nat \<Rightarrow> string \<Rightarrow> string \<Rightarrow> bool
    \<Rightarrow> pydict option \<Rightarrow> string option \<Rightarrow> real \<Rightarrow> session" where
  "repo_add_step_execution db i sid st p rd em dur =
     (case executions db i of
        None \<Rightarrow> db
      | Some row \<Rightarrow>
          db\<lparr>executions := (executions db)(i \<mapsto>
               row\<lparr>db_step_executions := db_step_executions row @
                      [\<lparr>se_step_id = sid, se_status = st, se_passed = p, se_result_data = rd,
                        se_error_message = em, se_duration_ms = dur\<rparr>]\<rparr>)\<rparr>)"

definition repo_update_status :: "session \<Rightarrow> nat \<Rightarrow> string \<Rightarrow> string option \<Rightarrow> int \<Rightarrow> int
    \<Rightarrow> pyval \<Rightarrow> string option \<Rightarrow> session" where
  "repo_update_status db i st cur sc fc em fin =
     (case executions db i of
        None \<Rightarrow> db
      | Some row \<Rightarrow>
          db\<lparr>executions := (executions db)(i \<mapsto>
               row\<lparr>db_status := st,
                   db_current_step_id := (case cur of None \<Rightarrow> db_current_step_id row | Some c \<Rightarrow> Some c),
                   db_success_count := sc,
                   db_failure_count := fc,
                   db_error_message := (if em = PNone then db_error_message row else em),
                   db_finished_at := (case fin of None \<Rightarrow> db_finished_at row | Some f \<Rightarrow> Some f)\<rparr>)\<rparr>)"

section \<open>What the executor returns\<close>

text \<open>\<^verbatim>\<open>WorkflowStepExecutionResult\<close> and \<^verbatim>\<open>WorkflowExecution\<close>, the models that
  \<^verbatim>\<open>_db_to_model\<close> builds from a row.\<close>

record WorkflowStepExecutionResult =
  res_step_id :: string
  res_status :: StepExecutionStatus
  res_passed :: bool
  res_result_data :: "pydict option"
  res_error_message :: "string option"
  res_duration_ms :: real

record WorkflowExecution =
  exec_id :: nat
  exec_workflow_id :: string
  exec_status :: ExecutionStatus
  exec_current_step_id :: "string option"
  exec_success_count :: int
  exec_failure_count :: int
  exec_error_message :: pyval
  exec_finished_at :: "string option"
  exec_triggered_by :: "string option"
  exec_step_executions :: "WorkflowStepExecutionResult list"
  exec_workflow_name :: string

text \<open>The loop of \<^verbatim>\<open>_db_to_model\<close> over the row's step records; a status string that
  is no member's value raises.\<close>

fun step_executions_to_model :: "WorkflowStepExecutionDb list
    \<Rightarrow> pyexn + WorkflowStepExecutionResult list" where
  "step_executions_to_model [] = Inr []"
| "step_executions_to_model (se # ses) =
     (case StepExecutionStatus_of (se_status se) of
        None \<Rightarrow> Inl ValueError
      | Some st \<Rightarrow>
          (case step_executions_to_model ses of
             Inl e \<Rightarrow> Inl e
           | Inr rs \<Rightarrow>
               Inr (\<lparr>res_step_id = se_step_id se, res_status = st, res_passed = se_passed se,
                     res_result_data = se_result_data se,
                     res_error_message = se_error_message se,
                     res_duration_ms = se_duration_ms se\<rparr> # rs)))"

text \<open>\<^verbatim>\<open>WorkflowExecutor._db_to_model\<close>.\<close>

definition db_to_model :: "WorkflowExecutionDb \<Rightarrow> string \<Rightarrow> pyexn + WorkflowExecution" where
  "db_to_model row wname =
     (case step_executions_to_model (db_step_executions row) of
        Inl e \<Rightarrow> Inl e
      | Inr rs \<Rightarrow>
          (case ExecutionStatus_of (db_status row) of
             None \<Rightarrow> Inl ValueError
           | Some st \<Rightarrow>
               Inr \<lparr>exec_id = db_id row, exec_workflow_id = db_workflow_id row,
                    exec_status = st, exec_current_step_id = db_current_step_id row,
                    exec_success_count = db_success_count row,
                    exec_failure_count = db_failure_count row,
                    exec_error_message = db_error_message row,
                    exec_finished_at = db_finished_at row,
                    exec_triggered_by = db_triggered_by row,
                    exec_step_executions = rs, exec_workflow_name = wname\<rparr>))"

section \<open>The interpreter loop\<close>

text \<open>
  The local variables of \<^verbatim>\<open>execute_workflow\<close> that the loop reads and writes, with the
  store and the session it works on.  \<open>dispatched\<close> is not a variable of the source:
  it lists, in order, every call of \<^verbatim>\<open>_execute_step\<close> the loop has made, with the step,
  the outcome and the measured duration, so that the history can be compared with what
  was dispatched.
\<close>

type_synonym dispatch = "WorkflowStep \<times> StepResult \<times> real"

record locals =
  store :: mem
  db :: session
  step_context :: StepContext
  success_count :: int
  failure_count :: int
  current_step_id :: "string option"
  final_status :: ExecutionStatus
  error_message :: pyval
  dispatched :: "dispatch list"

datatype flow = Continue | Break

text \<open>\<^verbatim>\<open>steps_by_id = {s.step_id: s for s in workflow.steps}\<close>: of two steps with one
  identifier the later one stays.\<close>

definition steps_by_id :: "WorkflowStep list \<Rightarrow> string \<Rightarrow> WorkflowStep option" where
  "steps_by_id ss = map_of (rev (map (\<lambda>s. (step_id s, s)) ss))"

text \<open>One pass through the body of \<^verbatim>\<open>while current_step_id:\<close>, for the identifier
  \<open>cur\<close> the loop test found set; \<open>Break\<close> is the source's \<^verbatim>\<open>break\<close>.\<close>

definition loop_body :: "env \<Rightarrow> (string \<Rightarrow> WorkflowStep option) \<Rightarrow> nat \<Rightarrow> string \<Rightarrow> locals
    \<Rightarrow> locals \<times> flow" where
  "loop_body E by_id ex cur s =
     (case by_id cur of
        None \<Rightarrow>
          (s\<lparr>error_message := PStr (''Step not found: '' @ cur), final_status := FAILED\<rparr>, Break)
      | Some step \<Rightarrow>
          (let start_time = time_time E (ticks (store s));
               m0 = (store s)\<lparr>ticks := Suc (ticks (store s))\<rparr>;
               (result, m1) = execute_step E step (step_context s) m0;
               duration_ms = (time_time E (ticks m1) - start_time) * 1000;
               m2 = m1\<lparr>ticks := Suc (ticks m1)\<rparr>;
               step_status = (if passed result then STEP_SUCCEEDED else STEP_FAILED);
               db1 = repo_add_step_execution (db s) ex (step_db_id step)
                       (StepExecutionStatus_value step_status) (passed result) (data result)
                       (error result) duration_ms;
               ctx1 = (step_context s)\<lparr>step_results :=
                        AList.update (step_id step) (passed result, message result, data result)
                          (step_results (step_context s))\<rparr>;
               s1 = s\<lparr>store := m2, db := db1, step_context := ctx1,
                      success_count := (if passed result then success_count s + 1
                                        else success_count s),
                      failure_count := (if passed result then failure_count s
                                        else failure_count s + 1),
                      dispatched := dispatched s @ [(step, result, duration_ms)]\<rparr>
           in if blocking result then
                (s1\<lparr>final_status := PAUSED,
                    db := repo_update_status db1 ex (ExecutionStatus_value PAUSED) (Some cur)
                            (success_count s1) (failure_count s1) PNone None\<rparr>, Break)
              else
                (let nxt = (if passed result then on_pass step else on_fail step);
                     s2 = s1\<lparr>current_step_id := nxt\<rparr>
                 in if \<not> truthy_opt nxt then
                      (if passed result then (s2\<lparr>final_status := SUCCEEDED\<rparr>, Continue)
                       else (s2\<lparr>final_status := FAILED,
                                error_message := py_or m2 (message result)
                                                   (opt_str (error result))\<rparr>, Continue))
                    else (s2, Continue))))"

text \<open>
  The loop.  It has no bound of its own, so the model counts passes: \<open>while_steps n\<close>
  is the state in which the loop ends when it ends within \<open>n\<close> passes, and \<open>None\<close>
  when it is still running after \<open>n\<close> passes.
\<close>

fun while_steps :: "nat \<Rightarrow> env \<Rightarrow> (string \<Rightarrow> WorkflowStep option) \<Rightarrow> nat \<Rightarrow> locals
    \<Rightarrow> locals option" where
  "while_steps 0 E by_id ex s = (if truthy_opt (current_step_id s) then None else Some s)"
| "while_steps (Suc n) E by_id ex s =
     (case current_step_id s of
        None \<Rightarrow> Some s
      | Some cur \<Rightarrow>
          if cur = [] then Some s
          else (case loop_body E by_id ex cur s of
                  (s', Break) \<Rightarrow> Some s'
                | (s', Continue) \<Rightarrow> while_steps n E by_id ex s'))"

text \<open>The statements of \<^verbatim>\<open>execute_workflow\<close> before the loop: the new row, the context
  around a copy of the entity, and the initial values of the variables.\<close>

definition initial_locals :: "ProcessWorkflow \<Rightarrow> addr \<Rightarrow> string \<Rightarrow> string \<Rightarrow> string option
    \<Rightarrow> string option \<Rightarrow> mem \<Rightarrow> session \<Rightarrow> nat \<times> locals" where
  "initial_locals workflow ent etype eid ename email m d =
     (let (d1, db_execution) = repo_create d (wf_id workflow) email;
          (m1, copy) = dict_copy m ent;
          ctx = \<lparr>entity = copy, entity_type = etype, entity_id = eid, entity_name = ename,
                 user_email = email, execution_id = db_id db_execution,
                 workflow_id = wf_id workflow, workflow_name = wf_name workflow,
                 step_results = []\<rparr>
      in (db_id db_execution,
          \<lparr>store = m1, db = d1, step_context = ctx, success_count = 0, failure_count = 0,
           current_step_id = (case steps workflow of [] \<Rightarrow> None | s0 # rest \<Rightarrow> Some (step_id s0)),
           final_status = RUNNING, error_message = PNone, dispatched = []\<rparr>))"

text \<open>The statements after the loop: the final update unless the run is paused, then
  the row read back and converted.  A row that is not there makes \<^verbatim>\<open>_db_to_model\<close>
  fail on \<^verbatim>\<open>None\<close>.\<close>

definition finalize :: "env \<Rightarrow> nat \<Rightarrow> string \<Rightarrow> locals
    \<Rightarrow> (pyexn + WorkflowExecution) \<times> dispatch list \<times> mem \<times> session" where
  "finalize E ex wname s =
     (let (m1, d1) =
            (if final_status s \<noteq> PAUSED then
               ((store s)\<lparr>ticks := Suc (ticks (store s))\<rparr>,
                repo_update_status (db s) ex (ExecutionStatus_value (final_status s)) None
                  (success_count s) (failure_count s) (error_message s)
                  (Some (utcnow_isoformat E (ticks (store s)))))
             else (store s, db s))
      in ((case repo_get d1 ex of
             None \<Rightarrow> Inl AttributeError
           | Some row \<Rightarrow> db_to_model row wname), dispatched s, m1, d1))"

text \<open>
  \<^verbatim>\<open>WorkflowExecutor.execute_workflow\<close>.  \<open>ent\<close> is the caller's entity dictionary;
  the result is \<open>None\<close> when the loop is still running after \<open>fuel\<close> passes, and
  otherwise what the call returns or raises, the dispatches it made, and the store and
  the session it leaves.  The source's \<^verbatim>\<open>blocking\<close> argument is not read by the body.
\<close>

definition execute_workflow :: "nat \<Rightarrow> env \<Rightarrow> ProcessWorkflow \<Rightarrow> addr \<Rightarrow> string \<Rightarrow> string
    \<Rightarrow> string option \<Rightarrow> string option \<Rightarrow> mem \<Rightarrow> session
    \<Rightarrow> ((pyexn + WorkflowExecution) \<times> dispatch list \<times> mem \<times> session) option" where
  "execute_workflow fuel E workflow ent etype eid ename email m d =
     (let (ex, s0) = initial_locals workflow ent etype eid ename email m d
      in map_option (finalize E ex (wf_name workflow))
           (while_steps fuel E (steps_by_id (steps workflow)) ex s0))"

text \<open>
  \<^verbatim>\<open>WorkflowExecutor.resume_workflow\<close>: the guards, and the conversion of the stored row
  that follows them; the source continues nothing (the continuation is a \<^verbatim>\<open>TODO\<close>).
  \<open>Inr None\<close> is the call returning \<^verbatim>\<open>None\<close>.  The session is returned as the call
  leaves it.
\<close>

definition resume_workflow :: "session \<Rightarrow> nat \<Rightarrow> bool \<Rightarrow> pydict option
    \<Rightarrow> (pyexn + WorkflowExecution option) \<times> session" where
  "resume_workflow d exid step_result result_data =
     (case repo_get d exid of
        None \<Rightarrow> (Inr None, d)
      | Some db_execution \<Rightarrow>
          if db_status db_execution \<noteq> ''paused'' then (Inr None, d)
          else (case workflows d (db_workflow_id db_execution) of
                  None \<Rightarrow> (Inr None, d)
                | Some db_workflow \<Rightarrow>
                    (case db_to_model db_execution (wf_name db_workflow) of
                       Inl e \<Rightarrow> (Inl e, d)
                     | Inr w \<Rightarrow> (Inr (Some w), d))))"

section \<open>Runs and their history\<close>


text \<open>The outcome of a dispatch: whether it passed, and whether it was blocking.\<close>

definition passed_of :: "dispatch \<Rightarrow> bool" where
  "passed_of x = passed (fst (snd x))"

definition blocking_of :: "dispatch \<Rightarrow> bool" where
  "blocking_of x = blocking (fst (snd x))"



text \<open>The variables after a pass has dispatched \<open>step\<close>, got \<open>r\<close> and the store
  \<open>m1\<close> back, and has recorded both; what the pass does next depends on \<open>r\<close>.\<close>

definition after_dispatch :: "env \<Rightarrow> nat \<Rightarrow> WorkflowStep \<Rightarrow> StepResult \<Rightarrow> mem \<Rightarrow> locals \<Rightarrow> locals" where
  "after_dispatch E ex step r m1 s =
     (let dur = (time_time E (ticks m1) - time_time E (ticks (store s))) * 1000
      in s\<lparr>store := m1\<lparr>ticks := Suc (ticks m1)\<rparr>,
           db := repo_add_step_execution (db s) ex (step_db_id step)
                   (StepExecutionStatus_value (if passed r then STEP_SUCCEEDED else STEP_FAILED))
                   (passed r) (data r) (error r) dur,
           step_context := (step_context s)\<lparr>step_results :=
                        AList.update (step_id step) (passed r, message r, data r)
                          (step_results (step_context s))\<rparr>,
           success_count := (if passed r then success_count s + 1 else success_count s),
           failure_count := (if passed r then failure_count s else failure_count s + 1),
           dispatched := dispatched s @ [(step, r, dur)]\<rparr>)"

text \<open>The branch a dispatch selects: \<open>on_pass\<close> of its step when the outcome passed,
  \<open>on_fail\<close> otherwise.\<close>

definition branch_of :: "dispatch \<Rightarrow> string option" where
  "branch_of x = (case x of (step, r, dur) \<Rightarrow> if passed r then on_pass step else on_fail step)"

text \<open>The status and the error message that a dispatch with no branch to follow
  leaves in the variables.\<close>

definition ended_by :: "locals \<Rightarrow> dispatch \<Rightarrow> bool" where
  "ended_by s x =
     (case x of (step, r, dur) \<Rightarrow>
        final_status s = (if passed r then SUCCEEDED else FAILED) \<and>
        error_message s =
          (if passed r then PNone else py_or (store s) (message r) (opt_str (error r))))"





section \<open>Example workflows\<close>




text \<open>An approval followed by the terminal success step.\<close>

definition approval_step :: WorkflowStep where
  "approval_step = \<lparr>step_db_id = ''row-1'', step_id = ''a1'', step_type = ''approval'',
     config = Some [(''approvers'', PStr ''requester'')], on_pass = Some ''done'', on_fail = None\<rparr>"

definition pass_step :: WorkflowStep where
  "pass_step = \<lparr>step_db_id = ''row-2'', step_id = ''done'', step_type = ''pass'',
     config = None, on_pass = None, on_fail = None\<rparr>"

definition wf_approval :: ProcessWorkflow where
  "wf_approval = \<lparr>wf_id = ''wf-1'', wf_name = ''approve'', steps = [approval_step, pass_step]\<rparr>"



text \<open>What is compared of a run in the examples: the status and the error message of
  the returned execution, and the branches and the outcome of each dispatch.\<close>

definition run_view :: "((pyexn + WorkflowExecution) \<times> dispatch list \<times> mem \<times> session) option
    \<Rightarrow> ((pyexn + ExecutionStatus \<times> pyval) \<times> (string option \<times> string option \<times> StepResult) list) option" where
  "run_view out =
     map_option (\<lambda>(res, ds, m, d).
        (map_sum id (\<lambda>w. (exec_status w, exec_error_message w)) res,
         map (\<lambda>(step, r, dur). (on_pass step, on_fail step, r)) ds)) out"



text \<open>A success step whose success branch is itself.\<close>

definition loop_step :: WorkflowStep where
  "loop_step = \<lparr>step_db_id = ''row-4'', step_id = ''again'', step_type = ''pass'',
     config = None, on_pass = Some ''again'', on_fail = None\<rparr>"

definition wf_loop :: ProcessWorkflow where
  "wf_loop = \<lparr>wf_id = ''wf-4'', wf_name = ''loop'', steps = [loop_step]\<rparr>"






text \<open>A session whose only execution, number 0, is still running; and one in which it is
  paused at the approval step of the approval workflow.\<close>

definition running_session :: session where
  "running_session =
     \<lparr>executions = [0 \<mapsto> \<lparr>db_id = 0, db_workflow_id = ''wf-1'', db_status = ''running'',
          db_current_step_id = None, db_success_count = 0, db_failure_count = 0,
          db_error_message = PNone, db_finished_at = None, db_triggered_by = None,
          db_step_executions = []\<rparr>],
      next_execution_id = 1,
      workflows = [''wf-1'' \<mapsto> wf_approval]\<rparr>"

definition paused_session :: session where
  "paused_session =
     \<lparr>executions = [0 \<mapsto> \<lparr>db_id = 0, db_workflow_id = ''wf-1'', db_status = ''paused'',
          db_current_step_id = Some ''a1'', db_success_count = 1, db_failure_count = 0,
          db_error_message = PNone, db_finished_at = None, db_triggered_by = None,
          db_step_executions = []\<rparr>],
      next_execution_id = 1,
      workflows = [''wf-1'' \<mapsto> wf_approval]\<rparr>"

section \<open>The loop, pass by pass\<close>








lemma branch_of_simp [simp]:
  "branch_of (step, r, dur) = (if passed r then on_pass step else on_fail step)"
  by (simp add: branch_of_def)

lemma ended_by_simp [simp]:
  "ended_by s (step, r, dur) =
     (final_status s = (if passed r then SUCCEEDED else FAILED) \<and>
      error_message s =
        (if passed r then PNone else py_or (store s) (message r) (opt_str (error r))))"
  by (simp add: ended_by_def)

lemma blocking_of_simp [simp]: "blocking_of (step, r, dur) = blocking r"
  by (simp add: blocking_of_def)

lemma passed_of_simp [simp]: "passed_of (step, r, dur) = passed r"
  by (simp add: passed_of_def)

lemma truthy_ticks [simp]: "truthy (m\<lparr>ticks := t\<rparr>) v = truthy m v"
  by (cases v) simp_all

lemma py_or_ticks [simp]: "py_or (m\<lparr>ticks := t\<rparr>) a b = py_or m a b"
  by (simp add: py_or_def)

lemma after_dispatch_simps [simp]:
  "dispatched (after_dispatch E ex step r m1 s) =
     dispatched s @ [(step, r, (time_time E (ticks m1) - time_time E (ticks (store s))) * 1000)]"
  "final_status (after_dispatch E ex step r m1 s) = final_status s"
  "error_message (after_dispatch E ex step r m1 s) = error_message s"
  "current_step_id (after_dispatch E ex step r m1 s) = current_step_id s"
  "store (after_dispatch E ex step r m1 s) = m1\<lparr>ticks := Suc (ticks m1)\<rparr>"
  "success_count (after_dispatch E ex step r m1 s) =
     (if passed r then success_count s + 1 else success_count s)"
  "failure_count (after_dispatch E ex step r m1 s) =
     (if passed r then failure_count s else failure_count s + 1)"
  by (simp_all add: after_dispatch_def Let_def)









section \<open>What a run returns\<close>


lemma ExecutionStatus_of_value [simp]: "ExecutionStatus_of (ExecutionStatus_value st) = Some st"
  by (cases st) (simp_all add: ExecutionStatus_of_def)

lemma ExecutionStatus_value_paused [simp]: "(ExecutionStatus_value st = ''paused'') = (st = PAUSED)"
  by (cases st) simp_all










section \<open>The claims\<close>











text \<open>The loop over the self-referring success step is still running after any number
  of passes.\<close>

lemma while_steps_loop_step:
  "current_step_id s = Some ''again'' \<Longrightarrow>
   while_steps n E (steps_by_id [loop_step]) ex s = None"
proof (induction n arbitrary: s)
  case 0
  then show ?case by simp
next
  case (Suc n)
  obtain s1 where lb: "loop_body E (steps_by_id [loop_step]) ex ''again'' s = (s1, Continue)"
    and cur: "current_step_id s1 = Some ''again''"
    by (simp add: loop_body_def steps_by_id_def loop_step_def execute_step_def HANDLERS_def
          PassStepHandler_execute_def Let_def)
  from Suc.IH [OF cur] Suc.prems lb show ?case by simp
qed

theorem self_loop_never_terminates:
  "execute_workflow fuel E wf_loop ent etype eid ename email m d = None"
proof -
  have "current_step_id (snd (initial_locals wf_loop ent etype eid ename email m d)) = Some ''again''"
    by (simp add: initial_locals_def wf_loop_def loop_step_def Let_def split: prod.splits)
  then have "while_steps fuel E (steps_by_id (steps wf_loop))
               (fst (initial_locals wf_loop ent etype eid ename email m d))
               (snd (initial_locals wf_loop ent etype eid ename email m d)) = None"
    by (simp add: wf_loop_def while_steps_loop_step)
  then show ?thesis by (auto simp: execute_workflow_def split: prod.splits)
qed

theorem empty_workflow_ends_running:
  "run_view (execute_workflow fuel E (workflow\<lparr>steps := []\<rparr>) ent etype eid ename email m d)
     = Some (Inr (RUNNING, PNone), [])"
  by (cases fuel)
     (simp_all add: run_view_def execute_workflow_def initial_locals_def repo_create_def
        dict_copy_def finalize_def repo_update_status_def repo_get_def db_to_model_def
        ExecutionStatus_of_def Let_def)






lemma execute_step_raised:
  "HANDLERS E (step_type step) = Some h \<Longrightarrow> h (config_or_empty (config step)) ctx mm = (Inl e, m1) \<Longrightarrow>
   execute_step E step ctx mm = (StepResult_failed (exn_str E e), m1)"
  by (simp add: execute_step_def)




text \<open>
  C7.  \<^verbatim>\<open>resume_workflow\<close> returns \<^verbatim>\<open>None\<close> exactly when no execution has the given
  identifier, or the stored execution's status is not \<open>PAUSED\<close>, or the workflow it
  belongs to cannot be loaded; only an existing, paused execution of an existing workflow
  gets past the guards.  In no case is anything continued: the session is left as it
  was.
\<close>

theorem resume_workflow_guards:
  "snd (resume_workflow d exid step_result result_data) = d \<and>
   ((fst (resume_workflow d exid step_result result_data) = Inr None) =
      (case repo_get d exid of
         None \<Rightarrow> True
       | Some row \<Rightarrow>
           db_status row \<noteq> ExecutionStatus_value PAUSED \<or>
           workflows d (db_workflow_id row) = None))"
  by (simp add: resume_workflow_def split: option.splits sum.splits)

text \<open>Resuming an execution that is still running returns \<^verbatim>\<open>None\<close> and changes
  nothing; resuming the paused one does not return \<^verbatim>\<open>None\<close>.\<close>

theorem resume_workflow_guards_witness:
  "resume_workflow running_session 0 True None = (Inr None, running_session) \<and>
   fst (resume_workflow paused_session 0 True None) \<noteq> Inr None"
proof -
  have r: "case repo_get running_session 0 of
         None \<Rightarrow> True
       | Some row \<Rightarrow>
           db_status row \<noteq> ExecutionStatus_value PAUSED \<or>
           workflows running_session (db_workflow_id row) = None"
    by (simp add: repo_get_def running_session_def)
  have p: "\<not> (case repo_get paused_session 0 of
         None \<Rightarrow> True
       | Some row \<Rightarrow>
           db_status row \<noteq> ExecutionStatus_value PAUSED \<or>
           workflows paused_session (db_workflow_id row) = None)"
    by (simp add: repo_get_def paused_session_def)
  from r resume_workflow_guards [of running_session 0 True None]
  have "fst (resume_workflow running_session 0 True None) = Inr None"
    and "snd (resume_workflow running_session 0 True None) = running_session"
    by simp_all
  then have "resume_workflow running_session 0 True None = (Inr None, running_session)"
    by (simp add: prod_eq_iff)
  moreover from p resume_workflow_guards [of paused_session 0 True None]
  have "fst (resume_workflow paused_session 0 True None) \<noteq> Inr None" by simp
  ultimately show ?thesis by simp
qed

end
